theory Spec2Isabelle
  imports
    Main
    "HOL-Library.Multiset"
    "HOL-Library.Product_Lexorder"
    "HOL-Library.Sublist"
begin

section \<open>Timestamps\<close>

text \<open>
  The collector works with naive \<^verbatim>\<open>datetime\<close> objects. A datetime is its seven fields;
  Python orders two of them by comparing the field tuples and subtracts them through the
  proleptic Gregorian ordinal of the date. A \<^verbatim>\<open>timedelta\<close> is normalised by the library to
  (days, seconds, microseconds) and ordered by that triple, which is the order of the total
  number of microseconds: a timedelta is modelled as that total.
\<close>

record datetime =
  year :: nat
  month :: nat
  day :: nat
  hour :: nat
  minute :: nat
  second :: nat
  microsecond :: nat

type_synonym timedelta = int

definition dt_key :: "datetime \<Rightarrow> nat \<times> nat \<times> nat \<times> nat \<times> nat \<times> nat \<times> nat" where
  "dt_key d = (year d, month d, day d, hour d, minute d, second d, microsecond d)"

definition is_leap :: "nat \<Rightarrow> bool" where
  "is_leap y = (y mod 4 = 0 \<and> (y mod 100 \<noteq> 0 \<or> y mod 400 = 0))"

definition days_in_month_table :: "nat list" where
  "days_in_month_table = [31, 28, 31, 30, 31, 30, 31, 31, 30, 31, 30, 31]"

definition days_before_year :: "nat \<Rightarrow> int" where
  "days_before_year y0 =
     (let y = int y0 - 1 in y * 365 + y div 4 - y div 100 + y div 400)"

definition days_before_month :: "nat \<Rightarrow> nat \<Rightarrow> int" where
  "days_before_month y m =
     int (sum_list (take (m - 1) days_in_month_table)) + (if m > 2 \<and> is_leap y then 1 else 0)"

definition toordinal :: "datetime \<Rightarrow> int" where
  "toordinal d = days_before_year (year d) + days_before_month (year d) (month d) + int (day d)"

definition timedelta_of :: "int \<Rightarrow> int \<Rightarrow> int \<Rightarrow> timedelta" where
  "timedelta_of days seconds microseconds =
     days * 86400000000 + seconds * 1000000 + microseconds"

definition dt_sub :: "datetime \<Rightarrow> datetime \<Rightarrow> timedelta" where
  "dt_sub a b =
     timedelta_of (toordinal a - toordinal b)
       (int (second a + minute a * 60 + hour a * 3600)
          - int (second b + minute b * 60 + hour b * 3600))
       (int (microsecond a) - int (microsecond b))"

definition one_hour :: timedelta where
  "one_hour = timedelta_of 0 3600 0"

section \<open>Strings and formatting\<close>

text \<open>
  Python strings are modelled as HOL strings of bytes; the few literals of the program
  outside ASCII are given by their UTF-8 bytes. \<^verbatim>\<open>str.lower\<close>, \<^verbatim>\<open>str.capitalize\<close> and
  \<^verbatim>\<open>str.strip\<close> are modelled on ASCII.
\<close>

definition lower_char :: "char \<Rightarrow> char" where
  "lower_char c =
     (let n = (of_char c :: nat) in if 65 \<le> n \<and> n \<le> 90 then char_of (n + 32) else c)"

definition upper_char :: "char \<Rightarrow> char" where
  "upper_char c =
     (let n = (of_char c :: nat) in if 97 \<le> n \<and> n \<le> 122 then char_of (n - 32) else c)"

definition lower :: "string \<Rightarrow> string" where
  "lower s = map lower_char s"

definition capitalize :: "string \<Rightarrow> string" where
  "capitalize s = (case s of [] \<Rightarrow> [] | c # cs \<Rightarrow> upper_char c # lower cs)"

definition is_space :: "char \<Rightarrow> bool" where
  "is_space c = (let n = (of_char c :: nat) in n = 32 \<or> (9 \<le> n \<and> n \<le> 13) \<or> (28 \<le> n \<and> n \<le> 31))"

definition strip :: "string \<Rightarrow> string" where
  "strip s = rev (dropWhile is_space (rev (dropWhile is_space s)))"

fun show_nat :: "nat \<Rightarrow> string" where
  "show_nat n =
     (if n < 10 then [char_of (48 + n)] else show_nat (n div 10) @ [char_of (48 + n mod 10)])"

declare show_nat.simps [simp del]

definition str_int :: "int \<Rightarrow> string" where
  "str_int i = (if i < 0 then CHR ''-'' # show_nat (nat (- i)) else show_nat (nat i))"

definition zfill :: "nat \<Rightarrow> string \<Rightarrow> string" where
  "zfill w s = replicate (w - length s) CHR ''0'' @ s"

definition newline :: string where
  "newline = [CHR 0x0A]"

definition quoted :: "string \<Rightarrow> string" where
  "quoted s = [CHR 0x27] @ s @ [CHR 0x27]"

definition em_dash :: string where
  "em_dash = [CHR 0xE2, CHR 0x80, CHR 0x94]"

definition en_dash :: string where
  "en_dash = [CHR 0xE2, CHR 0x80, CHR 0x93]"

text \<open>The \<^verbatim>\<open>strftime\<close> patterns the program uses.\<close>

definition strftime_date :: "datetime \<Rightarrow> string" where
  "strftime_date d =
     zfill 4 (show_nat (year d)) @ ''-'' @ zfill 2 (show_nat (month d)) @ ''-''
       @ zfill 2 (show_nat (day d))"

definition strftime_hm :: "datetime \<Rightarrow> string" where
  "strftime_hm d = zfill 2 (show_nat (hour d)) @ '':'' @ zfill 2 (show_nat (minute d))"

definition strftime_full :: "datetime \<Rightarrow> string" where
  "strftime_full d =
     strftime_date d @ '' '' @ strftime_hm d @ '':'' @ zfill 2 (show_nat (second d))"

definition strftime_run_id :: "datetime \<Rightarrow> string" where
  "strftime_run_id d =
     zfill 4 (show_nat (year d)) @ zfill 2 (show_nat (month d)) @ zfill 2 (show_nat (day d))
       @ ''_'' @ zfill 2 (show_nat (hour d)) @ zfill 2 (show_nat (minute d))
       @ zfill 2 (show_nat (second d))"

text \<open>
  \<^verbatim>\<open>str(timedelta)\<close>: the normalised days (any sign), seconds in \<open>[0, 86400)\<close> and
  microseconds in \<open>[0, 10^6)\<close>, printed as \<^verbatim>\<open>[D day[s], ]H:MM:SS[.UUUUUU]\<close>; the program
  keeps what stands before the first dot.
\<close>

definition td_days :: "timedelta \<Rightarrow> int" where
  "td_days d = d div 86400000000"

definition td_seconds :: "timedelta \<Rightarrow> int" where
  "td_seconds d = (d mod 86400000000) div 1000000"

definition td_microseconds :: "timedelta \<Rightarrow> int" where
  "td_microseconds d = d mod 1000000"

definition str_timedelta :: "timedelta \<Rightarrow> string" where
  "str_timedelta d =
     (let mm = td_seconds d div 60; ss = td_seconds d mod 60;
          hh = mm div 60; mm = mm mod 60;
          s = str_int hh @ '':'' @ zfill 2 (str_int mm) @ '':'' @ zfill 2 (str_int ss);
          s = (if td_days d \<noteq> 0
               then str_int (td_days d) @ '' day'' @ (if \<bar>td_days d\<bar> \<noteq> 1 then ''s'' else [])
                      @ '', '' @ s
               else s)
      in if td_microseconds d \<noteq> 0 then s @ ''.'' @ zfill 6 (str_int (td_microseconds d)) else s)"

definition before_first_dot :: "string \<Rightarrow> string" where
  "before_first_dot s = takeWhile (\<lambda>c. c \<noteq> CHR ''.'') s"

text \<open>
  \<^verbatim>\<open>int(duration.total_seconds())\<close>: the quotient by one second, truncated towards
  zero. (The library goes through a float; both operands of every duration the program
  converts come from \<^verbatim>\<open>parse_datetime\<close>, carry no microseconds, and differ by a whole number
  of seconds far below \<open>2^53\<close>, where the float is exact.)
\<close>

definition int_total_seconds :: "timedelta \<Rightarrow> int" where
  "int_total_seconds d = (if 0 \<le> d then d div 1000000 else - ((- d) div 1000000))"

section \<open>Exceptions, \<^verbatim>\<open>min\<close> and \<^verbatim>\<open>max\<close>\<close>

datatype exn =
    TypeError string
  | ValueError string
  | KeyError string
  | AttributeError string
  | OtherError string

fun exn_str :: "exn \<Rightarrow> string" where
  "exn_str (TypeError m) = m"
| "exn_str (ValueError m) = m"
| "exn_str (KeyError k) = quoted k"
| "exn_str (AttributeError m) = m"
| "exn_str (OtherError m) = m"

text \<open>
  \<^verbatim>\<open>min(xs)\<close> takes the first item and compares each later \<open>item < current\<close>
  (\<^verbatim>\<open>max\<close>: \<open>item > current\<close>); an empty argument raises \<^verbatim>\<open>ValueError\<close>, and a comparison
  that raises ends the call. A list of one item is returned without any comparison.
\<close>

fun extremum_loop :: "('a \<Rightarrow> 'a \<Rightarrow> exn + bool) \<Rightarrow> 'a \<Rightarrow> 'a list \<Rightarrow> exn + 'a" where
  "extremum_loop better cur [] = Inr cur"
| "extremum_loop better cur (item # rest) =
     (case better item cur of
        Inl e \<Rightarrow> Inl e
      | Inr b \<Rightarrow> extremum_loop better (if b then item else cur) rest)"

definition py_min :: "('a \<Rightarrow> 'a \<Rightarrow> exn + bool) \<Rightarrow> 'a list \<Rightarrow> exn + 'a" where
  "py_min lt xs =
     (case xs of
        [] \<Rightarrow> Inl (ValueError ''min() iterable argument is empty'')
      | x # rest \<Rightarrow> extremum_loop lt x rest)"

definition py_max :: "('a \<Rightarrow> 'a \<Rightarrow> exn + bool) \<Rightarrow> 'a list \<Rightarrow> exn + 'a" where
  "py_max gt xs =
     (case xs of
        [] \<Rightarrow> Inl (ValueError ''max() iterable argument is empty'')
      | x # rest \<Rightarrow> extremum_loop gt x rest)"

text \<open>Comparing two datetimes never raises; \<^verbatim>\<open>None\<close> supports no ordering at all.\<close>

definition dt_lt :: "datetime \<Rightarrow> datetime \<Rightarrow> exn + bool" where
  "dt_lt a b = Inr (dt_key a < dt_key b)"

definition dt_gt :: "datetime \<Rightarrow> datetime \<Rightarrow> exn + bool" where
  "dt_gt a b = Inr (dt_key a > dt_key b)"

definition type_name :: "datetime option \<Rightarrow> string" where
  "type_name v = (case v of None \<Rightarrow> ''NoneType'' | Some _ \<Rightarrow> ''datetime.datetime'')"

definition unsupported :: "string \<Rightarrow> datetime option \<Rightarrow> datetime option \<Rightarrow> exn" where
  "unsupported op a b =
     TypeError (quoted op @ '' not supported between instances of '' @ quoted (type_name a)
                  @ '' and '' @ quoted (type_name b))"

definition opt_lt :: "datetime option \<Rightarrow> datetime option \<Rightarrow> exn + bool" where
  "opt_lt a b =
     (case (a, b) of (Some x, Some y) \<Rightarrow> dt_lt x y | _ \<Rightarrow> Inl (unsupported ''<'' a b))"

definition opt_gt :: "datetime option \<Rightarrow> datetime option \<Rightarrow> exn + bool" where
  "opt_gt a b =
     (case (a, b) of (Some x, Some y) \<Rightarrow> dt_gt x y | _ \<Rightarrow> Inl (unsupported ''>'' a b))"

section \<open>Parsing timestamps\<close>

text \<open>
  \<^verbatim>\<open>parse_datetime\<close> and \<^verbatim>\<open>safe_parse\<close> strip the text, hand it to the library's
  \<^verbatim>\<open>datetime.strptime\<close> with the pattern \<^verbatim>\<open>%Y-%m-%d %H:%M:%S\<close> and turn any exception into
  \<^verbatim>\<open>None\<close>. The library function is a parameter \<open>sp\<close> of the model: it yields the six
  fields it read, or nothing where it raises. The pattern has no fraction, so the datetime
  built from the fields has microsecond 0.
\<close>

type_synonym strptime = "string \<Rightarrow> (nat \<times> nat \<times> nat \<times> nat \<times> nat \<times> nat) option"

definition datetime_of_fields :: "nat \<times> nat \<times> nat \<times> nat \<times> nat \<times> nat \<Rightarrow> datetime" where
  "datetime_of_fields f =
     (case f of (y, mo, d, h, mi, s) \<Rightarrow>
        \<lparr>year = y, month = mo, day = d, hour = h, minute = mi, second = s, microsecond = 0\<rparr>)"

definition parse_datetime :: "strptime \<Rightarrow> string \<Rightarrow> datetime option" where
  "parse_datetime sp date_str = map_option datetime_of_fields (sp (strip date_str))"

definition safe_parse :: "strptime \<Rightarrow> string \<Rightarrow> datetime option" where
  "safe_parse sp dt_str = map_option datetime_of_fields (sp (strip dt_str))"

section \<open>Shipments\<close>

text \<open>
  A shipment is the dictionary the crawler builds for a listing row; the detail fetcher
  then adds the three counts (\<^verbatim>\<open>shipment.update(details)\<close>), which is the record extension.
\<close>

record shipment =
  shipment_id :: string
  created_dt :: datetime
  created_at :: string
  unload_started_at :: string
  closed_at :: string
  status :: string
  detail_url :: "string option"

record enriched = shipment +
  sent :: int
  received :: int
  excess :: int

section \<open>Grouping (process_pvs, "Group shipments")\<close>

definition created_key :: "'a shipment_scheme \<Rightarrow> nat \<times> nat \<times> nat \<times> nat \<times> nat \<times> nat \<times> nat" where
  "created_key s = dt_key (created_dt s)"

definition night_bucket :: "'a shipment_scheme list \<Rightarrow> 'a shipment_scheme list" where
  "night_bucket valid_shipments = filter (\<lambda>s. hour (created_dt s) < 8) valid_shipments"

definition day_bucket :: "'a shipment_scheme list \<Rightarrow> 'a shipment_scheme list" where
  "day_bucket valid_shipments = filter (\<lambda>s. hour (created_dt s) \<ge> 8) valid_shipments"

text \<open>
  The \<^verbatim>\<open>for i in range(1, len(day))\<close> loop: the state is the list of finished groups and
  the current run; \<^verbatim>\<open>current[-1]\<close> is the last shipment of the current run, which is never
  empty (it starts as \<^verbatim>\<open>[day[0]]\<close> and is reset to a singleton).
\<close>

fun scan_day ::
  "'a shipment_scheme list \<Rightarrow> 'a shipment_scheme list list \<Rightarrow> 'a shipment_scheme list
     \<Rightarrow> 'a shipment_scheme list list \<times> 'a shipment_scheme list" where
  "scan_day [] groups current = (groups, current)"
| "scan_day (x # rest) groups current =
     (if dt_sub (created_dt x) (created_dt (last current)) \<le> one_hour
      then scan_day rest groups (current @ [x])
      else scan_day rest (groups @ [current]) [x])"

definition build_groups :: "'a shipment_scheme list \<Rightarrow> 'a shipment_scheme list list" where
  "build_groups valid_shipments =
     (let night = night_bucket valid_shipments;
          day = day_bucket valid_shipments;
          groups = (if night \<noteq> [] then [sort_key created_key night] else [])
      in case day of
           [] \<Rightarrow> groups
         | d0 # rest \<Rightarrow>
             (case scan_day rest groups [d0] of
                (groups', current) \<Rightarrow> if current \<noteq> [] then groups' @ [current] else groups'))"

text \<open>
  \<^verbatim>\<open>groups.sort(key=lambda g: g[-1]["created_dt"], reverse=True)\<close>: a stable sort with
  \<^verbatim>\<open>reverse=True\<close> keeps the original order of groups with equal keys, which is what
  reversing, sorting stably and reversing again gives.
\<close>

definition sort_groups :: "'a shipment_scheme list list \<Rightarrow> 'a shipment_scheme list list" where
  "sort_groups groups = rev (sort_key (\<lambda>g. created_key (last g)) (rev groups))"

definition group_shipments :: "'a shipment_scheme list \<Rightarrow> 'a shipment_scheme list list" where
  "group_shipments valid_shipments = sort_groups (build_groups valid_shipments)"

section \<open>Aggregation and rendering (process_pvs, "Build report")\<close>

definition start_times :: "strptime \<Rightarrow> enriched list \<Rightarrow> datetime option list" where
  "start_times sp grp =
     map (\<lambda>s. parse_datetime sp (unload_started_at s))
       (filter (\<lambda>s. unload_started_at s \<noteq> ''-'') grp)"

definition close_times :: "strptime \<Rightarrow> enriched list \<Rightarrow> datetime option list" where
  "close_times sp grp =
     map (\<lambda>g. parse_datetime sp (closed_at g)) (filter (\<lambda>g. closed_at g \<noteq> ''-'') grp)"

definition earliest_start_of :: "strptime \<Rightarrow> enriched list \<Rightarrow> exn + datetime option" where
  "earliest_start_of sp grp =
     (if start_times sp grp \<noteq> [] then py_min opt_lt (start_times sp grp) else Inr None)"

text \<open>The \<^verbatim>\<open>if / elif / else\<close> that sets \<^verbatim>\<open>group_status\<close> and \<^verbatim>\<open>latest_close\<close>.\<close>

definition status_and_close :: "strptime \<Rightarrow> enriched list \<Rightarrow> exn + string \<times> datetime option" where
  "status_and_close sp grp =
     (let statuses = map status grp
      in if ''in_progress'' \<in> set statuses then Inr (''in_progress'', None)
         else if list_all (\<lambda>s. s = ''pending'') statuses then Inr (''pending'', None)
         else (case (if close_times sp grp \<noteq> [] then py_max opt_gt (close_times sp grp)
                     else Inr None) of
                 Inl e \<Rightarrow> Inl e
               | Inr latest_close \<Rightarrow> Inr (''closed'', latest_close)))"

text \<open>
  The duration branch: the pair of \<^verbatim>\<open>duration_seconds\<close> and \<^verbatim>\<open>duration\<close>. A datetime is
  always true in a condition, so \<^verbatim>\<open>earliest_start and latest_close\<close> holds when neither is
  \<^verbatim>\<open>None\<close>. \<open>now\<close> is what \<^verbatim>\<open>datetime.now()\<close> returns in the other branch.
\<close>

definition duration_of ::
  "datetime \<Rightarrow> string \<Rightarrow> datetime option \<Rightarrow> datetime option \<Rightarrow> int \<times> timedelta" where
  "duration_of now group_status earliest_start latest_close =
     (case (group_status = ''closed'', earliest_start, latest_close) of
        (True, Some es, Some lc) \<Rightarrow> (int_total_seconds (dt_sub lc es), dt_sub lc es)
      | _ \<Rightarrow> (0, case earliest_start of Some es \<Rightarrow> dt_sub now es | None \<Rightarrow> 0))"

record derived =
  earliest_start :: "datetime option"
  group_status :: string
  latest_close :: "datetime option"
  duration_seconds :: int
  duration :: timedelta
  duration_str :: string
  first_created :: string
  last_created :: string
  total_sent :: int
  total_received :: int
  total_excess :: int
  group_count :: nat

definition aggregate :: "strptime \<Rightarrow> datetime \<Rightarrow> enriched list \<Rightarrow> exn + derived" where
  "aggregate sp now grp =
     (case earliest_start_of sp grp of
        Inl e \<Rightarrow> Inl e
      | Inr es \<Rightarrow>
     (case status_and_close sp grp of
        Inl e \<Rightarrow> Inl e
      | Inr (gstatus, lc) \<Rightarrow>
     (case py_min dt_lt (map created_dt grp) of
        Inl e \<Rightarrow> Inl e
      | Inr first_dt \<Rightarrow>
     (case py_max dt_gt (map created_dt grp) of
        Inl e \<Rightarrow> Inl e
      | Inr last_dt \<Rightarrow>
          Inr \<lparr>earliest_start = es, group_status = gstatus, latest_close = lc,
               duration_seconds = fst (duration_of now gstatus es lc),
               duration = snd (duration_of now gstatus es lc),
               duration_str = before_first_dot (str_timedelta (snd (duration_of now gstatus es lc))),
               first_created = strftime_hm first_dt,
               last_created = strftime_hm last_dt,
               total_sent = sum_list (map sent grp),
               total_received = sum_list (map received grp),
               total_excess = sum_list (map excess grp),
               group_count = length grp\<rparr>))))"

definition render_group :: "nat \<Rightarrow> string \<Rightarrow> derived \<Rightarrow> string" where
  "render_group idx today_date a =
     ''Group: '' @ show_nat idx @ newline
     @ ''Date: '' @ today_date @ newline
     @ ''Arrival window: '' @ first_created a @ '' '' @ en_dash @ '' '' @ last_created a @ newline
     @ ''Closed at: '' @ (case latest_close a of Some t \<Rightarrow> strftime_full t | None \<Rightarrow> ''-'') @ newline
     @ ''Unload started: '' @ (case earliest_start a of Some t \<Rightarrow> strftime_full t | None \<Rightarrow> ''-'')
     @ newline
     @ ''Unload duration: '' @ duration_str a @ newline
     @ ''Status: '' @ capitalize (group_status a) @ newline
     @ ''Boxes: '' @ show_nat (group_count a) @ newline
     @ ''Sent: '' @ str_int (total_sent a) @ newline
     @ ''Received: '' @ str_int (total_received a) @ newline
     @ ''Excess: '' @ str_int (total_excess a) @ newline"

section \<open>Persistence (save_group_to_db)\<close>

text \<open>
  The values of the \<^verbatim>\<open>INSERT\<close>. The body of \<^verbatim>\<open>save_group_to_db\<close> runs in a \<^verbatim>\<open>try\<close> whose
  handler prints the exception and writes nothing: the model returns the row handed to the
  database, or the exception that kept it from being written. The database itself is not
  modelled.
\<close>

record db_row =
  report_id :: string
  pvs_name :: string
  delivery_date :: string
  row_created_at :: datetime
  row_unload_started_at :: "datetime option"
  row_closed_at :: "datetime option"
  row_status :: string
  row_sent :: int
  row_received :: int
  row_excess :: int
  group_index :: nat
  boxes_count :: nat
  unload_duration_seconds :: int

definition db_unload_started_at :: "strptime \<Rightarrow> enriched list \<Rightarrow> exn + datetime option" where
  "db_unload_started_at sp grp =
     (let start_times = map (\<lambda>s. safe_parse sp (unload_started_at s))
                          (filter (\<lambda>s. unload_started_at s \<noteq> ''-'') grp)
      in if start_times \<noteq> [] then py_min opt_lt (filter (\<lambda>t. t \<noteq> None) start_times)
         else Inr None)"

definition db_closed_at :: "strptime \<Rightarrow> enriched list \<Rightarrow> exn + datetime option" where
  "db_closed_at sp grp =
     (let statuses = map (\<lambda>s. lower (status s)) grp
      in if list_all (\<lambda>s. s = ''closed'') statuses
         then (let close_times = map (\<lambda>s. safe_parse sp (closed_at s))
                                   (filter (\<lambda>s. closed_at s \<noteq> ''-'') grp)
               in if close_times \<noteq> [] then py_max opt_gt (filter (\<lambda>t. t \<noteq> None) close_times)
                  else Inr None)
         else Inr None)"

definition db_status :: "enriched list \<Rightarrow> string" where
  "db_status grp =
     (let statuses = map (\<lambda>s. lower (status s)) grp
      in if list_ex (\<lambda>s. s = ''in_progress'') statuses then ''in_progress''
         else if list_all (\<lambda>s. s = ''pending'') statuses then ''pending''
         else ''closed'')"

definition save_group_to_db ::
  "strptime \<Rightarrow> datetime \<Rightarrow> string \<Rightarrow> enriched list \<Rightarrow> nat \<Rightarrow> string \<Rightarrow> nat \<Rightarrow> int
     \<Rightarrow> exn + db_row" where
  "save_group_to_db sp now pvs grp idx today_date cnt dur_seconds =
     (let run_id = strftime_run_id now;
          rid = ''GROUP_'' @ run_id @ ''_'' @ pvs @ ''_'' @ show_nat idx
      in case py_min dt_lt (map created_dt grp) of
           Inl e \<Rightarrow> Inl e
         | Inr created \<Rightarrow>
        (case db_unload_started_at sp grp of
           Inl e \<Rightarrow> Inl e
         | Inr started \<Rightarrow>
        (case db_closed_at sp grp of
           Inl e \<Rightarrow> Inl e
         | Inr closed \<Rightarrow>
             Inr \<lparr>report_id = rid, pvs_name = pvs, delivery_date = today_date,
                  row_created_at = created, row_unload_started_at = started,
                  row_closed_at = closed, row_status = db_status grp,
                  row_sent = sum_list (map sent grp),
                  row_received = sum_list (map received grp),
                  row_excess = sum_list (map excess grp),
                  group_index = idx, boxes_count = cnt,
                  unload_duration_seconds = dur_seconds\<rparr>)))"

text \<open>
  The loop over \<^verbatim>\<open>enumerate(groups, 1)\<close>: the state is the report lines and the rows
  written so far. An exception of the aggregation leaves the loop (and the function) with
  the rows already written; one inside \<^verbatim>\<open>save_group_to_db\<close> is swallowed there.
  \<open>render_clock idx\<close> and \<open>db_clock idx\<close> are the readings of \<^verbatim>\<open>datetime.now()\<close> taken
  for group \<open>idx\<close>.
\<close>

fun report_loop ::
  "strptime \<Rightarrow> (nat \<Rightarrow> datetime) \<Rightarrow> (nat \<Rightarrow> datetime) \<Rightarrow> string \<Rightarrow> string \<Rightarrow> nat
     \<Rightarrow> enriched list list \<Rightarrow> string list \<Rightarrow> db_row list \<Rightarrow> (exn + string list) \<times> db_row list" where
  "report_loop sp render_clock db_clock pvs today_date idx [] lines rows = (Inr lines, rows)"
| "report_loop sp render_clock db_clock pvs today_date idx (grp # rest) lines rows =
     (case aggregate sp (render_clock idx) grp of
        Inl e \<Rightarrow> (Inl e, rows)
      | Inr a \<Rightarrow>
          report_loop sp render_clock db_clock pvs today_date (idx + 1) rest
            (lines @ [render_group idx today_date a])
            (rows @ (case save_group_to_db sp (db_clock idx) pvs grp idx today_date
                            (group_count a) (duration_seconds a) of
                       Inl e \<Rightarrow> []
                     | Inr r \<Rightarrow> [r])))"

section \<open>Crawling the listing (process_pvs, "Scrape today's shipments")\<close>

text \<open>
  What the HTML extraction finds in one \<^verbatim>\<open>tr\<close> of the listing: the text of each cell the
  program reads, after \<^verbatim>\<open>get_text(strip=True)\<close>, or nothing where the cell is missing; for
  the identifier cell the text of its link and the link's \<^verbatim>\<open>href\<close>, or nothing where the
  cell or the link is missing.
\<close>

record row =
  created_cell :: "string option"
  external_link :: "(string \<times> string option) option"
  status_cell :: "string option"
  closed_cell :: "string option"
  unload_cell :: "string option"

definition no_get_text :: exn where
  "no_get_text =
     AttributeError (quoted ''NoneType'' @ '' object has no attribute '' @ quoted ''get_text'')"

text \<open>
  The body of \<^verbatim>\<open>for row in rows\<close>: the shipment to append, nothing where the row is
  skipped by \<^verbatim>\<open>continue\<close>, or the exception the body raises.
\<close>

definition process_row :: "strptime \<Rightarrow> string \<Rightarrow> string \<Rightarrow> row \<Rightarrow> exn + shipment option" where
  "process_row sp base_url today_date r =
     (case created_cell r of
        None \<Rightarrow> Inr None
      | Some created_text \<Rightarrow>
          if \<not> prefix today_date created_text then Inr None
          else
            (let sid = (case external_link r of Some (txt, href) \<Rightarrow> txt | None \<Rightarrow> em_dash)
             in case (case external_link r of
                        Some (txt, Some href) \<Rightarrow> Inr (Some (base_url @ href))
                      | Some (txt, None) \<Rightarrow> Inl (KeyError ''href'')
                      | None \<Rightarrow> Inr None) of
                  Inl e \<Rightarrow> Inl e
                | Inr url \<Rightarrow>
               (case status_cell r of
                  None \<Rightarrow> Inl no_get_text
                | Some status_text \<Rightarrow>
                    (let st = lower status_text;
                         closed = (if st = ''closed''
                                   then (case closed_cell r of Some t \<Rightarrow> t | None \<Rightarrow> ''-'')
                                   else ''-'')
                     in case unload_cell r of
                          None \<Rightarrow> Inl no_get_text
                        | Some unload \<Rightarrow>
                            (case parse_datetime sp created_text of
                               None \<Rightarrow> Inr None
                             | Some dt \<Rightarrow>
                                 Inr (Some \<lparr>shipment_id = sid, created_dt = dt,
                                            created_at = created_text,
                                            unload_started_at = unload, closed_at = closed,
                                            status = st, detail_url = url\<rparr>))))))"

fun scan_rows ::
  "strptime \<Rightarrow> string \<Rightarrow> string \<Rightarrow> row list \<Rightarrow> shipment list \<Rightarrow> bool
     \<Rightarrow> exn option \<times> shipment list \<times> bool" where
  "scan_rows sp base_url today_date [] all_shipments new_rows_found =
     (None, all_shipments, new_rows_found)"
| "scan_rows sp base_url today_date (r # rows) all_shipments new_rows_found =
     (case process_row sp base_url today_date r of
        Inl e \<Rightarrow> (Some e, all_shipments, new_rows_found)
      | Inr None \<Rightarrow> scan_rows sp base_url today_date rows all_shipments new_rows_found
      | Inr (Some sh) \<Rightarrow> scan_rows sp base_url today_date rows (all_shipments @ [sh]) True)"

text \<open>
  One request of the listing: it raises, or it answers with a status code and the rows
  selected from the page. \<open>fetch page\<close> is what the source answers for page \<open>page\<close>.
  The \<^verbatim>\<open>while True\<close> loop has no bound of its own, so it is a partial function: \<open>None\<close>
  is the run that never leaves the loop.
\<close>

datatype page_result = PageRaises exn | PageResponse nat "row list"

partial_function (option) crawl_pages ::
  "strptime \<Rightarrow> string \<Rightarrow> string \<Rightarrow> (nat \<Rightarrow> page_result) \<Rightarrow> nat \<Rightarrow> shipment list
     \<Rightarrow> shipment list option" where
  "crawl_pages sp base_url today_date fetch page all_shipments =
     (case fetch page of
        PageRaises e \<Rightarrow> Some all_shipments
      | PageResponse code rows \<Rightarrow>
          if code \<noteq> 200 then Some all_shipments
          else if rows = [] then Some all_shipments
          else (case scan_rows sp base_url today_date rows all_shipments False of
                  (err, all', found) \<Rightarrow>
                    if err \<noteq> None then Some all'
                    else if \<not> found \<and> page > 1 then Some all'
                    else if length rows < 20 then Some all'
                    else crawl_pages sp base_url today_date fetch (page + 1) all'))"

section \<open>Detail fetch (process_pvs, "Fetch details concurrently")\<close>

text \<open>
  A task is a shipment with the outcome of \<^verbatim>\<open>get_details_from_detail_page\<close> for it: the
  three counts, or \<^verbatim>\<open>None\<close> (a failed or timed-out request, a page without the counts).
  \<^verbatim>\<open>as_completed\<close> yields the tasks in the order they finish, and each result is stored in
  \<^verbatim>\<open>details_map\<close> under the shipment's identifier.
\<close>

type_synonym details = "int \<times> int \<times> int"

type_synonym task = "shipment \<times> details option"

text \<open>The tasks submitted, one per valid shipment in order: the \<open>i\<close>-th shipment with the
  outcome \<open>outcome i\<close> of its detail request.\<close>

definition detail_tasks :: "(nat \<Rightarrow> details option) \<Rightarrow> shipment list \<Rightarrow> task list" where
  "detail_tasks outcome valid_shipments =
     map (\<lambda>(i, sh). (sh, outcome i)) (enumerate 0 valid_shipments)"

definition fetch_details :: "shipment \<Rightarrow> details option \<Rightarrow> string \<times> details" where
  "fetch_details sh outcome =
     (if detail_url sh = None \<or> detail_url sh = Some [] then (shipment_id sh, (0, 0, 0))
      else (shipment_id sh, case outcome of Some d \<Rightarrow> d | None \<Rightarrow> (0, 0, 0)))"

definition collect_details :: "task list \<Rightarrow> (string \<rightharpoonup> details)" where
  "collect_details completed =
     fold (\<lambda>(sh, outcome) details_map.
             case fetch_details sh outcome of (sid, d) \<Rightarrow> details_map(sid \<mapsto> d))
       completed Map.empty"

definition update_details :: "shipment \<Rightarrow> details \<Rightarrow> enriched" where
  "update_details sh d =
     (case d of (a, b, c) \<Rightarrow>
        \<lparr>shipment_id = shipment_id sh, created_dt = created_dt sh, created_at = created_at sh,
         unload_started_at = unload_started_at sh, closed_at = closed_at sh,
         status = status sh, detail_url = detail_url sh,
         sent = a, received = b, excess = c\<rparr>)"

fun enrich_all :: "(string \<rightharpoonup> details) \<Rightarrow> shipment list \<Rightarrow> exn + enriched list" where
  "enrich_all details_map [] = Inr []"
| "enrich_all details_map (sh # rest) =
     (case details_map (shipment_id sh) of
        None \<Rightarrow> Inl (KeyError (shipment_id sh))
      | Some d \<Rightarrow>
          (case enrich_all details_map rest of
             Inl e \<Rightarrow> Inl e
           | Inr es \<Rightarrow> Inr (update_details sh d # es)))"

section \<open>One source (process_pvs) and the orchestrator\<close>

text \<open>
  Everything outside the program that one call of \<^verbatim>\<open>process_pvs\<close> meets: what creating
  the session, the login page and the login request do (an exception, or the status code,
  respectively the text of the response), what the source answers for each page of the
  listing, the outcome of the detail request of the \<open>i\<close>-th task, the order in which the
  detail tasks finish, and the readings of the clock.
\<close>

record source =
  src_session_error :: "exn option"
  src_login_page :: "exn + nat"
  src_login_response :: "exn + string"
  src_page :: "nat \<Rightarrow> page_result"
  src_detail_outcome :: "nat \<Rightarrow> details option"
  src_completion :: "task list \<Rightarrow> task list"
  src_today :: datetime
  src_render_clock :: "nat \<Rightarrow> datetime"
  src_db_clock :: "nat \<Rightarrow> datetime"

datatype result = ErrorResult string | ReportResult string

definition base_url_of :: "string \<Rightarrow> string" where
  "base_url_of pvs_id = ''https://example-pvs-'' @ pvs_id @ ''.local''"

definition report_header :: "string \<Rightarrow> string" where
  "report_header pvs_id =
     [CHR 0xF0, CHR 0x9F, CHR 0x93, CHR 0x8D, CHR 0x20, CHR 0xD0, CHR 0x9F, CHR 0xD0, CHR 0x92,
      CHR 0xD0, CHR 0x97, CHR 0x3A, CHR 0x20] @ pvs_id @ newline"

text \<open>
  From the crawled shipments to the report. Every crawled shipment has a parsed
  \<^verbatim>\<open>created_dt\<close> (the row loop skips the others), so the filter that builds
  \<^verbatim>\<open>valid_shipments\<close> keeps all of them and its "no valid timestamps" exit is never taken.
  The second component is the rows written to the database.
\<close>

definition run_pipeline ::
  "strptime \<Rightarrow> source \<Rightarrow> string \<Rightarrow> string \<Rightarrow> shipment list \<Rightarrow> (exn + result) \<times> db_row list" where
  "run_pipeline sp src pvs_id today_date all_shipments =
     (if all_shipments = [] then (Inr (ErrorResult ''No shipments found for today''), [])
      else
        (let valid_shipments = sort_key created_key all_shipments;
             tasks = detail_tasks (src_detail_outcome src) valid_shipments;
             details_map = collect_details (src_completion src tasks)
         in case enrich_all details_map valid_shipments of
              Inl e \<Rightarrow> (Inl e, [])
            | Inr enriched_shipments \<Rightarrow>
                (case report_loop sp (src_render_clock src) (src_db_clock src) pvs_id today_date 1
                        (group_shipments enriched_shipments) [report_header pvs_id] [] of
                   (Inl e, rows) \<Rightarrow> (Inl e, rows)
                 | (Inr lines, rows) \<Rightarrow> (Inr (ReportResult (concat lines)), rows))))"

definition try_body ::
  "strptime \<Rightarrow> source \<Rightarrow> string \<Rightarrow> ((exn + result) \<times> db_row list) option" where
  "try_body sp src pvs_id =
     (case src_login_page src of
        Inl e \<Rightarrow> Some (Inl e, [])
      | Inr code \<Rightarrow>
          if code \<noteq> 200
          then Some (Inr (ErrorResult (''Login page unreachable ('' @ show_nat code @ '')'')), [])
          else
            (case src_login_response src of
               Inl e \<Rightarrow> Some (Inl e, [])
             | Inr response_text \<Rightarrow>
                 if sublist ''identity'' response_text \<and> sublist ''credential'' response_text
                 then Some (Inr (ErrorResult ''Login failed''), [])
                 else
                   (let today_date = strftime_date (src_today src)
                    in case crawl_pages sp (base_url_of pvs_id) today_date (src_page src) 1 [] of
                         None \<Rightarrow> None
                       | Some all_shipments \<Rightarrow>
                           Some (run_pipeline sp src pvs_id today_date all_shipments))))"

text \<open>
  \<^verbatim>\<open>process_pvs\<close>: \<open>None\<close> when the call never returns; otherwise what it returns, or the
  exception that leaves it (only the two statements before its \<^verbatim>\<open>try\<close> can raise one),
  with the rows written to the database.
\<close>

definition process_pvs ::
  "strptime \<Rightarrow> source \<Rightarrow> string \<Rightarrow> ((exn + result) \<times> db_row list) option" where
  "process_pvs sp src pvs_id =
     (case src_session_error src of
        Some e \<Rightarrow> Some (Inl e, [])
      | None \<Rightarrow>
          (case try_body sp src pvs_id of
             None \<Rightarrow> None
           | Some (Inl e, rows) \<Rightarrow> Some (Inr (ErrorResult (''Critical error: '' @ exn_str e)), rows)
           | Some (Inr res, rows) \<Rightarrow> Some (Inr res, rows)))"

text \<open>The body of the loop over the finished futures: the message appended.\<close>

definition outcome_message :: "string \<Rightarrow> exn + result \<Rightarrow> string" where
  "outcome_message pvs r =
     (case r of
        Inr (ErrorResult err) \<Rightarrow>
          [CHR 0xD0, CHR 0x9E, CHR 0xD1, CHR 0x88, CHR 0xD0, CHR 0xB8, CHR 0xD0, CHR 0xB1,
           CHR 0xD0, CHR 0xBA, CHR 0xD0, CHR 0xB0, CHR 0x20] @ pvs @ '': '' @ err
      | Inr (ReportResult message) \<Rightarrow> message
      | Inl e \<Rightarrow> pvs @ '': Unhandled error '' @ em_dash @ '' '' @ exn_str e)"

text \<open>
  The main block: one future per configured source, \<^verbatim>\<open>as_completed\<close> yields them in the
  order \<open>finish_order\<close> puts them in, and it yields all of them only if every call
  returns.
\<close>

definition main_messages ::
  "strptime \<Rightarrow> (string \<times> source) list
     \<Rightarrow> ((string \<times> (exn + result)) list \<Rightarrow> (string \<times> (exn + result)) list)
     \<Rightarrow> string list option" where
  "main_messages sp sources finish_order =
     (let futures = map (\<lambda>(pvs, src). (pvs, process_pvs sp src pvs)) sources
      in if list_ex (\<lambda>(pvs, r). r = None) futures then None
         else Some (map (\<lambda>(pvs, r). outcome_message pvs r)
                      (finish_order (map (\<lambda>(pvs, r). (pvs, fst (the r))) futures))))"

section \<open>A concrete run\<close>

text \<open>
  For the concrete runs below the library parser is instantiated by its behaviour on
  zero-padded text \<^verbatim>\<open>YYYY-MM-DD HH:MM:SS\<close> (the form the portals print): nineteen
  characters, the six numbers in range. The general theorems hold for every parser.
\<close>

fun number_of :: "string \<Rightarrow> nat option" where
  "number_of [] = Some 0"
| "number_of (c # cs) =
     (let n = (of_char c :: nat)
      in if 48 \<le> n \<and> n \<le> 57
         then map_option (\<lambda>m. (n - 48) * 10 ^ length cs + m) (number_of cs)
         else None)"

definition days_in_month :: "nat \<Rightarrow> nat \<Rightarrow> nat" where
  "days_in_month y m =
     (if m = 2 \<and> is_leap y then 29 else days_in_month_table ! (m - 1))"

definition strptime_padded :: strptime where
  "strptime_padded s =
     (if length s = 19 \<and> s ! 4 = CHR ''-'' \<and> s ! 7 = CHR ''-'' \<and> s ! 10 = CHR '' ''
         \<and> s ! 13 = CHR '':'' \<and> s ! 16 = CHR '':''
      then (case (number_of (take 4 s), number_of (take 2 (drop 5 s)),
                  number_of (take 2 (drop 8 s)), number_of (take 2 (drop 11 s)),
                  number_of (take 2 (drop 14 s)), number_of (take 2 (drop 17 s))) of
              (Some y, Some mo, Some d, Some h, Some mi, Some sec) \<Rightarrow>
                if 1 \<le> y \<and> 1 \<le> mo \<and> mo \<le> 12 \<and> 1 \<le> d \<and> d \<le> days_in_month y mo
                   \<and> h < 24 \<and> mi < 60 \<and> sec < 60
                then Some (y, mo, d, h, mi, sec) else None
            | _ \<Rightarrow> None)
      else None)"

definition at_time :: "nat \<Rightarrow> nat \<Rightarrow> datetime" where
  "at_time h mi =
     \<lparr>year = 2024, month = 5, day = 1, hour = h, minute = mi, second = 0, microsecond = 0\<rparr>"

definition mk_shipment ::
  "string \<Rightarrow> datetime \<Rightarrow> string \<Rightarrow> string \<Rightarrow> string \<Rightarrow> int \<Rightarrow> int \<Rightarrow> int \<Rightarrow> enriched" where
  "mk_shipment sid dt started closed st a b c =
     \<lparr>shipment_id = sid, created_dt = dt, created_at = strftime_full dt,
      unload_started_at = started, closed_at = closed, status = st,
      detail_url = Some (''https://example-pvs-site1.local/shipments/'' @ sid),
      sent = a, received = b, excess = c\<rparr>"

definition s0210 :: enriched where
  "s0210 = mk_shipment ''A1'' (at_time 2 10) ''2024-05-01 02:15:00'' ''2024-05-01 03:00:00''
             ''closed'' 10 10 0"

definition s0250 :: enriched where
  "s0250 = mk_shipment ''A2'' (at_time 2 50) ''2024-05-01 02:15:00'' ''2024-05-01 03:00:00''
             ''closed'' 7 6 1"

definition s0900 :: enriched where
  "s0900 = mk_shipment ''A3'' (at_time 9 0) ''-'' ''-'' ''pending'' 4 0 0"

definition s0940 :: enriched where
  "s0940 = mk_shipment ''A4'' (at_time 9 40) ''-'' ''-'' ''pending'' 0 0 0"

definition s1100 :: enriched where
  "s1100 = mk_shipment ''A5'' (at_time 11 0) ''-'' ''-'' ''pending'' 3 0 0"

definition scenario :: "enriched list" where
  "scenario = [s0210, s0250, s0900, s0940, s1100]"

text \<open>
  The status derivation in the words of the specification, as a function of the multiset
  of the members' statuses; the two derivations of the program are compared with it.
\<close>

definition spec_group_status :: "string multiset \<Rightarrow> string" where
  "spec_group_status statuses =
     (if ''in_progress'' \<in># statuses then ''in_progress''
      else if (\<forall>s \<in># statuses. s = ''pending'') then ''pending''
      else ''closed'')"


section \<open>Properties of the grouping\<close>

text \<open>Vocabulary of the statements: the gap test of the scan, and the runs the scan
  makes of a day bucket when it starts from the run \<open>current\<close> and no finished group.\<close>

definition within_hour :: "'a shipment_scheme \<Rightarrow> 'a shipment_scheme \<Rightarrow> bool" where
  "within_hour prev x = (dt_sub (created_dt x) (created_dt prev) \<le> one_hour)"

definition runs_of :: "'a shipment_scheme list \<Rightarrow> 'a shipment_scheme list \<Rightarrow> 'a shipment_scheme list list" where
  "runs_of xs current = (case scan_day xs [] current of (groups, cur) \<Rightarrow> groups @ [cur])"

lemma scan_day_prefix:
  "scan_day xs (pre @ gs) cur = (pre @ fst (scan_day xs gs cur), snd (scan_day xs gs cur))"
proof (induction xs arbitrary: gs cur)
  case Nil
  show ?case by simp
next
  case (Cons x xs)
  show ?case
    using Cons.IH [of gs "cur @ [x]"] Cons.IH [of "gs @ [cur]" "[x]"] by simp
qed

lemma runs_of_Nil: "runs_of [] cur = [cur]"
  by (simp add: runs_of_def)

lemma runs_of_Cons:
  "runs_of (x # xs) cur =
     (if within_hour (last cur) x then runs_of xs (cur @ [x]) else cur # runs_of xs [x])"
proof (cases "within_hour (last cur) x")
  case True
  then show ?thesis by (simp add: runs_of_def within_hour_def)
next
  case False
  have "scan_day xs ([cur] @ []) [x] = ([cur] @ fst (scan_day xs [] [x]), snd (scan_day xs [] [x]))"
    by (rule scan_day_prefix)
  with False show ?thesis
    by (simp add: runs_of_def within_hour_def split: prod.splits)
qed

lemma scan_day_runs_of:
  "scan_day xs pre cur = (gs, c) \<Longrightarrow> gs @ [c] = pre @ runs_of xs cur"
  using scan_day_prefix [of xs pre "[]" cur]
  by (auto simp: runs_of_def split: prod.splits)

lemma runs_of_hd: "\<exists>ys rs. runs_of xs cur = (cur @ ys) # rs"
proof (induction xs arbitrary: cur)
  case Nil
  show ?case by (simp add: runs_of_Nil)
next
  case (Cons x xs)
  show ?case
  proof (cases "within_hour (last cur) x")
    case True
    from Cons.IH [of "cur @ [x]"] obtain ys rs where "runs_of xs (cur @ [x]) = ((cur @ [x]) @ ys) # rs"
      by blast
    with True show ?thesis by (simp add: runs_of_Cons)
  next
    case False
    then show ?thesis by (simp add: runs_of_Cons)
  qed
qed

lemma concat_runs_of: "concat (runs_of xs cur) = cur @ xs"
  by (induction xs arbitrary: cur) (simp_all add: runs_of_Nil runs_of_Cons)

lemma runs_of_nonempty: "cur \<noteq> [] \<Longrightarrow> r \<in> set (runs_of xs cur) \<Longrightarrow> r \<noteq> []"
  by (induction xs arbitrary: cur) (auto simp: runs_of_Nil runs_of_Cons split: if_splits)

lemma runs_of_within:
  "cur \<noteq> [] \<Longrightarrow> successively within_hour cur \<Longrightarrow> r \<in> set (runs_of xs cur)
     \<Longrightarrow> successively within_hour r"
proof (induction xs arbitrary: cur)
  case Nil
  then show ?case by (simp add: runs_of_Nil)
next
  case (Cons x xs)
  show ?case
  proof (cases "within_hour (last cur) x")
    case True
    with Cons.prems have "successively within_hour (cur @ [x])"
      by (simp add: successively_append_iff)
    with Cons.IH [of "cur @ [x]"] Cons.prems True show ?thesis
      by (simp add: runs_of_Cons)
  next
    case False
    with Cons.IH [of "[x]"] Cons.prems show ?thesis
      by (auto simp: runs_of_Cons)
  qed
qed

lemma runs_of_boundaries:
  "cur \<noteq> [] \<Longrightarrow> successively (\<lambda>r r'. \<not> within_hour (last r) (hd r')) (runs_of xs cur)"
proof (induction xs arbitrary: cur)
  case Nil
  show ?case by (simp add: runs_of_Nil)
next
  case (Cons x xs)
  show ?case
  proof (cases "within_hour (last cur) x")
    case True
    with Cons.IH [of "cur @ [x]"] show ?thesis by (simp add: runs_of_Cons)
  next
    case False
    obtain ys rs where h: "runs_of xs [x] = ([x] @ ys) # rs"
      using runs_of_hd [of xs "[x]"] by blast
    from Cons.IH [of "[x]"] h False show ?thesis
      by (simp add: runs_of_Cons successively_Cons)
  qed
qed

lemma build_groups_runs:
  "build_groups vs =
     (if night_bucket vs = [] then [] else [sort_key created_key (night_bucket vs)])
     @ (case day_bucket vs of [] \<Rightarrow> [] | d0 # rest \<Rightarrow> runs_of rest [d0])"
proof (cases "day_bucket vs")
  case Nil
  then show ?thesis by (simp add: build_groups_def)
next
  case (Cons d0 rest)
  obtain gs c where sc:
    "scan_day rest (if night_bucket vs = [] then [] else [sort_key created_key (night_bucket vs)]) [d0] = (gs, c)"
    by (cases "scan_day rest (if night_bucket vs = [] then [] else [sort_key created_key (night_bucket vs)]) [d0]")
  from scan_day_runs_of [OF sc] have eq:
    "gs @ [c] = (if night_bucket vs = [] then [] else [sort_key created_key (night_bucket vs)]) @ runs_of rest [d0]" .
  obtain ys rs where "runs_of rest [d0] = ([d0] @ ys) # rs"
    using runs_of_hd [of rest "[d0]"] by blast
  then have "c \<in> set (runs_of rest [d0])"
    using eq by (metis last_appendR last_in_set last_snoc list.distinct(1))
  then have "c \<noteq> []" using runs_of_nonempty [of "[d0]" c rest] by simp
  with Cons sc eq show ?thesis
    by (simp add: build_groups_def Let_def split: if_splits)
qed

lemma mset_sort_groups: "mset (sort_groups gs) = mset gs"
  by (simp add: sort_groups_def)

lemma set_sort_groups: "set (sort_groups gs) = set gs"
  by (simp add: sort_groups_def)

lemma mset_concat_perm: "mset xs = mset ys \<Longrightarrow> mset (concat xs) = mset (concat ys)"
proof -
  assume h: "mset xs = mset ys"
  have "mset (concat xs) = sum_mset (image_mset mset (mset xs))"
    by (simp add: mset_concat sum_mset_sum_list [symmetric])
  also have "\<dots> = sum_mset (image_mset mset (mset ys))" by (simp add: h)
  also have "\<dots> = mset (concat ys)"
    by (simp add: mset_concat sum_mset_sum_list [symmetric])
  finally show ?thesis .
qed

lemma concat_day_runs:
  "concat (case day_bucket vs of [] \<Rightarrow> [] | d0 # rest \<Rightarrow> runs_of rest [d0]) = day_bucket vs"
  by (cases "day_bucket vs") (simp_all add: concat_runs_of)

lemma mset_concat_build_groups: "mset (concat (build_groups vs)) = mset vs"
proof -
  have "mset (concat (build_groups vs)) = mset (night_bucket vs) + mset (day_bucket vs)"
    by (simp add: build_groups_runs concat_day_runs)
  also have "\<dots> = mset vs"
    by (simp add: night_bucket_def day_bucket_def not_less [symmetric])
  finally show ?thesis .
qed

lemma build_groups_nonempty: "g \<in> set (build_groups vs) \<Longrightarrow> g \<noteq> []"
proof -
  assume g: "g \<in> set (build_groups vs)"
  have night: "night_bucket vs \<noteq> [] \<Longrightarrow> sort_key created_key (night_bucket vs) \<noteq> []"
    by (metis length_sort length_0_conv)
  show ?thesis
  proof (cases "day_bucket vs")
    case Nil
    with g night show ?thesis
      by (auto simp: build_groups_runs split: if_splits)
  next
    case (Cons d0 rest)
    with g have "g = sort_key created_key (night_bucket vs) \<and> night_bucket vs \<noteq> []
                   \<or> g \<in> set (runs_of rest [d0])"
      by (auto simp: build_groups_runs split: if_splits)
    then show ?thesis
      using night runs_of_nonempty [of "[d0]" g rest] by auto
  qed
qed

lemma distinct_concat_disjoint:
  "distinct (concat gs) \<Longrightarrow> i < j \<Longrightarrow> j < length gs \<Longrightarrow> set (gs ! i) \<inter> set (gs ! j) = {}"
proof (induction gs arbitrary: i j)
  case Nil
  then show ?case by simp
next
  case (Cons g gs)
  show ?case
  proof (cases i)
    case 0
    with Cons.prems obtain j' where j: "j = Suc j'" "j' < length gs" by (cases j) auto
    with Cons.prems have "set g \<inter> set (gs ! j') = {}" by (auto simp: disjoint_iff)
    with 0 j show ?thesis by simp
  next
    case (Suc i')
    with Cons.prems obtain j' where j: "j = Suc j'" "i' < j'" "j' < length gs" by (cases j) auto
    with Cons.IH [of i' j'] Cons.prems Suc show ?thesis by simp
  qed
qed

lemmas scenario_defs =
  scenario_def s0210_def s0250_def s0900_def s0940_def s1100_def mk_shipment_def at_time_def

lemmas grouping_defs =
  group_shipments_def sort_groups_def build_groups_def night_bucket_def day_bucket_def
  created_key_def dt_key_def within_hour_def dt_sub_def one_hour_def timedelta_of_def
  toordinal_def days_before_year_def days_before_month_def

lemma scenario_build_groups:
  "build_groups scenario = [[s0210, s0250], [s0900, s0940], [s1100]]"
  by (simp add: scenario_defs grouping_defs)

lemma scenario_group_shipments:
  "group_shipments scenario = [[s1100], [s0900, s0940], [s0210, s0250]]"
  by (simp add: scenario_defs grouping_defs)

text \<open>
  C1. The groups built from the valid shipments are the night bucket, sorted by creation
  time, as one group when it is not empty, followed by the runs of the day bucket. The runs
  cut the day bucket in its order (their concatenation is the day bucket) such that inside
  a run each shipment is created at most one hour after the one before it, and the first
  shipment of a run is created strictly more than one hour after the last shipment of the
  run before it: the scan starts a new run exactly at the gaps above one hour. The final
  sort only reorders these groups. (This holds for every list, sorted or not.)
\<close>

theorem grouping_scan_rule:
  "\<exists>runs. build_groups vs =
            (if night_bucket vs = [] then [] else [sort_key created_key (night_bucket vs)]) @ runs
     \<and> concat runs = day_bucket vs
     \<and> (\<forall>r \<in> set runs. r \<noteq> [] \<and> successively within_hour r)
     \<and> successively
          (\<lambda>r r'. one_hour < dt_sub (created_dt (hd r')) (created_dt (last r))) runs
     \<and> sorted (map created_key (sort_key created_key (night_bucket vs)))
     \<and> mset (group_shipments vs) = mset (build_groups vs)"
proof -
  define runs where
    "runs = (case day_bucket vs of [] \<Rightarrow> [] | d0 # rest \<Rightarrow> runs_of rest [d0])"
  have split: "build_groups vs =
      (if night_bucket vs = [] then [] else [sort_key created_key (night_bucket vs)]) @ runs"
    unfolding runs_def by (rule build_groups_runs)
  have cat: "concat runs = day_bucket vs"
    unfolding runs_def by (rule concat_day_runs)
  have inside: "\<forall>r \<in> set runs. r \<noteq> [] \<and> successively within_hour r"
  proof (cases "day_bucket vs")
    case Nil
    then show ?thesis by (simp add: runs_def)
  next
    case (Cons d0 rest)
    then have "runs = runs_of rest [d0]" by (simp add: runs_def)
    then show ?thesis
      using runs_of_nonempty [of "[d0]" _ rest] runs_of_within [of "[d0]" _ rest] by auto
  qed
  have "successively (\<lambda>r r'. \<not> within_hour (last r) (hd r')) runs"
  proof (cases "day_bucket vs")
    case Nil
    then show ?thesis by (simp add: runs_def)
  next
    case (Cons d0 rest)
    then have "runs = runs_of rest [d0]" by (simp add: runs_def)
    then show ?thesis using runs_of_boundaries [of "[d0]" rest] by simp
  qed
  then have between:
    "successively (\<lambda>r r'. one_hour < dt_sub (created_dt (hd r')) (created_dt (last r))) runs"
    by (simp add: within_hour_def not_le)
  have night: "sorted (map created_key (sort_key created_key (night_bucket vs)))"
    by (rule sorted_sort_key)
  have perm: "mset (group_shipments vs) = mset (build_groups vs)"
    by (simp add: group_shipments_def mset_sort_groups)
  from split cat inside between night perm show ?thesis by blast
qed

theorem grouping_scan_rule_witness:
  "build_groups scenario = [[s0210, s0250], [s0900, s0940], [s1100]]
   \<and> night_bucket scenario = [s0210, s0250]
   \<and> within_hour s0900 s0940
   \<and> \<not> within_hour s0940 s1100
   \<and> build_groups [s0900, s0900\<lparr>created_dt := at_time 10 0\<rparr>]
       = [[s0900, s0900\<lparr>created_dt := at_time 10 0\<rparr>]]
   \<and> (\<exists>runs. build_groups scenario =
            (if night_bucket scenario = [] then []
             else [sort_key created_key (night_bucket scenario)]) @ runs
     \<and> concat runs = day_bucket scenario
     \<and> (\<forall>r \<in> set runs. r \<noteq> [] \<and> successively within_hour r)
     \<and> successively
          (\<lambda>r r'. one_hour < dt_sub (created_dt (hd r')) (created_dt (last r))) runs
     \<and> sorted (map created_key (sort_key created_key (night_bucket scenario)))
     \<and> mset (group_shipments scenario) = mset (build_groups scenario))"
proof (intro conjI)
  show "build_groups scenario = [[s0210, s0250], [s0900, s0940], [s1100]]"
    by (rule scenario_build_groups)
  show "night_bucket scenario = [s0210, s0250]"
    by (simp add: scenario_defs night_bucket_def)
  show "within_hour s0900 s0940"
    by (simp add: scenario_defs grouping_defs)
  show "\<not> within_hour s0940 s1100"
    by (simp add: scenario_defs grouping_defs)
  show "build_groups [s0900, s0900\<lparr>created_dt := at_time 10 0\<rparr>]
          = [[s0900, s0900\<lparr>created_dt := at_time 10 0\<rparr>]]"
    by (simp add: scenario_defs grouping_defs)
  show "\<exists>runs. build_groups scenario =
            (if night_bucket scenario = [] then []
             else [sort_key created_key (night_bucket scenario)]) @ runs
     \<and> concat runs = day_bucket scenario
     \<and> (\<forall>r \<in> set runs. r \<noteq> [] \<and> successively within_hour r)
     \<and> successively
          (\<lambda>r r'. one_hour < dt_sub (created_dt (hd r')) (created_dt (last r))) runs
     \<and> sorted (map created_key (sort_key created_key (night_bucket scenario)))
     \<and> mset (group_shipments scenario) = mset (build_groups scenario)"
    by (rule grouping_scan_rule)
qed

text \<open>
  C2. The groups partition the valid shipments: no group is empty; the groups together
  hold every shipment exactly as often as the input does (equality of multisets, so
  each input shipment is in exactly one place of exactly one group); and when the input
  holds no shipment twice, any two groups of the output are disjoint.
\<close>

theorem groups_partition_input:
  "mset (concat (group_shipments vs)) = mset vs
   \<and> (\<forall>g \<in> set (group_shipments vs). g \<noteq> [])
   \<and> (distinct vs \<longrightarrow>
        distinct (concat (group_shipments vs))
        \<and> (\<forall>i j. i < j \<and> j < length (group_shipments vs)
               \<longrightarrow> set (group_shipments vs ! i) \<inter> set (group_shipments vs ! j) = {}))"
proof -
  have m: "mset (concat (group_shipments vs)) = mset vs"
    using mset_concat_perm [OF mset_sort_groups [of "build_groups vs"]]
    by (simp add: group_shipments_def mset_concat_build_groups)
  have ne: "\<forall>g \<in> set (group_shipments vs). g \<noteq> []"
    using build_groups_nonempty [of _ vs] by (auto simp: group_shipments_def set_sort_groups)
  have d: "distinct (concat (group_shipments vs))" if "distinct vs"
    using that mset_eq_imp_distinct_iff [OF m] by simp
  from m ne d show ?thesis
    using distinct_concat_disjoint [of "group_shipments vs"] by blast
qed

theorem groups_partition_input_witness:
  "distinct scenario
   \<and> group_shipments scenario = [[s1100], [s0900, s0940], [s0210, s0250]]
   \<and> mset (concat (group_shipments scenario)) = mset scenario
   \<and> distinct (concat (group_shipments scenario))
   \<and> set (group_shipments scenario ! 0) \<inter> set (group_shipments scenario ! 2) = {}"
proof -
  have d: "distinct scenario" by (simp add: scenario_defs)
  have l: "length (group_shipments scenario) = 3" by (simp add: scenario_group_shipments)
  note p = groups_partition_input [of scenario]
  from p have m: "mset (concat (group_shipments scenario)) = mset scenario" by (rule conjunct1)
  from p d have dc: "distinct (concat (group_shipments scenario))" by blast
  from p d have "\<forall>i j. i < j \<and> j < length (group_shipments scenario)
      \<longrightarrow> set (group_shipments scenario ! i) \<inter> set (group_shipments scenario ! j) = {}"
    by blast
  then have "(0::nat) < 2 \<and> 2 < length (group_shipments scenario)
      \<longrightarrow> set (group_shipments scenario ! 0) \<inter> set (group_shipments scenario ! 2) = {}"
    by blast
  with l have dj: "set (group_shipments scenario ! 0) \<inter> set (group_shipments scenario ! 2) = {}"
    by simp
  from d scenario_group_shipments m dc dj show ?thesis by blast
qed

lemma lower_char_idem: "lower_char (lower_char c) = lower_char c"
proof -
  have "of_char (char_of (n + 32) :: char) = n + 32" if "n \<le> 90" for n :: nat
    using that by simp
  then show ?thesis
    by (auto simp: lower_char_def Let_def)
qed

lemma lower_idem: "lower (lower s) = lower s"
  by (simp add: lower_def lower_char_idem)

lemma process_row_status:
  "process_row sp base today r = Inr (Some sh) \<Longrightarrow> status sh = lower (the (status_cell r))"
  by (auto simp: process_row_def Let_def
      split: option.splits if_splits sum.splits prod.splits)

lemma process_row_status_lower:
  "process_row sp base today r = Inr (Some sh) \<Longrightarrow> lower (status sh) = status sh"
  using process_row_status [of sp base today r sh] by (simp add: lower_idem)

lemma scan_rows_status_lower:
  "scan_rows sp base today rows acc found = (err, acc', found')
     \<Longrightarrow> \<forall>sh \<in> set acc. lower (status sh) = status sh
     \<Longrightarrow> \<forall>sh \<in> set acc'. lower (status sh) = status sh"
proof (induction rows arbitrary: acc found)
  case Nil
  then show ?case by simp
next
  case (Cons r rows)
  show ?case
  proof (cases "process_row sp base today r")
    case (Inl e)
    with Cons.prems show ?thesis by simp
  next
    case (Inr o1)
    show ?thesis
    proof (cases o1)
      case None
      with Inr Cons.prems Cons.IH [of acc found] show ?thesis by simp
    next
      case (Some sh)
      with Inr have "lower (status sh) = status sh" by (simp add: process_row_status_lower)
      with Some Inr Cons.prems Cons.IH [of "acc @ [sh]" True] show ?thesis by simp
    qed
  qed
qed

lemma db_status_spec:
  assumes "\<forall>s \<in> set grp. lower (status s) = status s"
  shows "db_status grp = spec_group_status (mset (map status grp))"
proof -
  from assms have "map (\<lambda>s. lower (status s)) grp = map status grp" by simp
  then show ?thesis
    by (auto simp: db_status_def spec_group_status_def Let_def list_ex_iff list_all_iff)
qed

lemma status_and_close_spec:
  "(case status_and_close sp grp of
      Inr (st, lc) \<Rightarrow> st = spec_group_status (mset (map status grp))
    | Inl e \<Rightarrow> spec_group_status (mset (map status grp)) = ''closed'')"
  by (auto simp: status_and_close_def spec_group_status_def Let_def list_all_iff
      split: sum.splits)

lemma aggregate_status:
  "aggregate sp now grp = Inr a \<Longrightarrow> status_and_close sp grp = Inr (group_status a, latest_close a)"
  by (auto simp: aggregate_def split: sum.splits prod.splits)



lemma save_group_row:
  assumes "save_group_to_db sp now pvs grp idx today cnt secs = Inr r"
  shows "row_status r = db_status grp \<and> unload_duration_seconds r = secs \<and> boxes_count r = cnt
         \<and> db_closed_at sp grp = Inr (row_closed_at r)
         \<and> db_unload_started_at sp grp = Inr (row_unload_started_at r)
         \<and> row_sent r = sum_list (map sent grp) \<and> row_received r = sum_list (map received grp)
         \<and> row_excess r = sum_list (map excess grp)"
proof (cases "py_min dt_lt (map created_dt grp)")
  case (Inl e)
  with assms show ?thesis by (simp add: save_group_to_db_def)
next
  case c: (Inr created)
  show ?thesis
  proof (cases "db_unload_started_at sp grp")
    case (Inl e)
    with assms c show ?thesis by (simp add: save_group_to_db_def)
  next
    case s: (Inr started)
    show ?thesis
    proof (cases "db_closed_at sp grp")
      case (Inl e)
      with assms c s show ?thesis by (simp add: save_group_to_db_def)
    next
      case (Inr closed)
      with assms c s have "r = \<lparr>report_id = ''GROUP_'' @ strftime_run_id now @ ''_'' @ pvs @ ''_'' @ show_nat idx,
                  pvs_name = pvs, delivery_date = today,
                  row_created_at = created, row_unload_started_at = started,
                  row_closed_at = closed, row_status = db_status grp,
                  row_sent = sum_list (map sent grp),
                  row_received = sum_list (map received grp),
                  row_excess = sum_list (map excess grp),
                  group_index = idx, boxes_count = cnt,
                  unload_duration_seconds = secs\<rparr>"
        by (simp add: save_group_to_db_def Let_def)
      with s Inr show ?thesis by simp
    qed
  qed
qed

text \<open>
  C3. For a group whose member statuses are lower-case (as the crawler stores them, see
  \<open>process_row_status_lower\<close>): the status the persistence path derives is the
  specification's function of the status multiset (in_progress if any member is, else
  pending if all are, else closed); the report path derives the same status whenever it
  yields one, and when it raises instead (taking the latest close time) the status is the
  closed one; so both paths agree, also in the row that is written.
\<close>

theorem group_status_precedence:
  assumes "\<forall>s \<in> set grp. lower (status s) = status s"
  shows "db_status grp = spec_group_status (mset (map status grp))
     \<and> (case status_and_close sp grp of
          Inr (st, lc) \<Rightarrow> st = spec_group_status (mset (map status grp))
        | Inl e \<Rightarrow> spec_group_status (mset (map status grp)) = ''closed'')
     \<and> (\<forall>a. aggregate sp now grp = Inr a \<longrightarrow> group_status a = db_status grp)
     \<and> (\<forall>r. save_group_to_db sp now' pvs grp idx today cnt secs = Inr r
            \<longrightarrow> row_status r = spec_group_status (mset (map status grp)))"
proof -
  note db = db_status_spec [OF assms]
  note rp = status_and_close_spec [where sp = sp and grp = grp]
  have agg: "group_status a = db_status grp" if "aggregate sp now grp = Inr a" for a
    using aggregate_status [OF that] rp db by simp
  have row: "row_status r = spec_group_status (mset (map status grp))"
    if "save_group_to_db sp now' pvs grp idx today cnt secs = Inr r" for r
    using save_group_row [OF that] db by simp
  from db rp agg row show ?thesis by blast
qed

lemmas aggregate_defs =
  aggregate_def earliest_start_of_def start_times_def close_times_def status_and_close_def
  duration_of_def py_min_def py_max_def opt_lt_def opt_gt_def dt_lt_def dt_gt_def
  parse_datetime_def strip_def is_space_def datetime_of_fields_def
  strptime_padded_def days_in_month_def days_in_month_table_def is_leap_def
  int_total_seconds_def

lemma mixed_group_render:
  "status_and_close strptime_padded [s0210, s0900] = Inr (''closed'', Some (at_time 3 0))"
  by (simp add: scenario_defs aggregate_defs grouping_defs)

theorem group_status_precedence_witness:
  "lower (status s0210) = status s0210 \<and> lower (status s0900) = status s0900
   \<and> status s0210 = ''closed'' \<and> status s0900 = ''pending''
   \<and> db_status [s0210, s0900] = ''closed''
   \<and> spec_group_status (mset (map status [s0210, s0900])) = ''closed''
   \<and> status_and_close strptime_padded [s0210, s0900] = Inr (''closed'', Some (at_time 3 0))"
proof -
  have l1: "lower (status s0210) = status s0210"
    by (simp add: scenario_defs lower_def lower_char_def)
  have l2: "lower (status s0900) = status s0900"
    by (simp add: scenario_defs lower_def lower_char_def)
  from l1 l2 have h: "\<forall>s \<in> set [s0210, s0900]. lower (status s) = status s" by simp
  have sp: "spec_group_status (mset (map status [s0210, s0900])) = ''closed''"
    by (simp add: spec_group_status_def scenario_defs)
  have c1: "status s0210 = ''closed''" by (simp add: scenario_defs)
  have c2: "status s0900 = ''pending''" by (simp add: scenario_defs)
  from group_status_precedence [OF h]
  have "db_status [s0210, s0900] = spec_group_status (mset (map status [s0210, s0900]))"
    by (rule conjunct1)
  then have db: "db_status [s0210, s0900] = ''closed''" using sp by (rule trans)
  show ?thesis by (intro conjI l1 l2 c1 c2 db sp mixed_group_render)
qed











lemmas text_defs =
  before_first_dot_def str_timedelta_def td_days_def td_seconds_def td_microseconds_def
  str_int_def zfill_def show_nat.simps strftime_hm_def strftime_date_def strftime_full_def
  strftime_run_id_def char_of_eq_iff newline_def

lemma night_earliest:
  "earliest_start_of strptime_padded [s0210, s0250] = Inr (Some (at_time 2 15))"
  by (simp add: scenario_defs aggregate_defs grouping_defs)

lemma night_status_close:
  "status_and_close strptime_padded [s0210, s0250] = Inr (''closed'', Some (at_time 3 0))"
  by (simp add: scenario_defs aggregate_defs grouping_defs)

lemma night_first: "py_min dt_lt (map created_dt [s0210, s0250]) = Inr (at_time 2 10)"
  by (simp add: scenario_defs aggregate_defs grouping_defs)

lemma night_last: "py_max dt_gt (map created_dt [s0210, s0250]) = Inr (at_time 2 50)"
  by (simp add: scenario_defs aggregate_defs grouping_defs)

lemma night_duration:
  "duration_of now ''closed'' (Some (at_time 2 15)) (Some (at_time 3 0)) = (2700, 2700000000)"
  by (simp add: scenario_defs aggregate_defs grouping_defs)

lemma night_duration_str: "before_first_dot (str_timedelta 2700000000) = ''0:45:00''"
  by (simp add: text_defs)

lemma night_window:
  "strftime_hm (at_time 2 10) = ''02:10''" "strftime_hm (at_time 2 50) = ''02:50''"
  by (simp_all add: text_defs at_time_def)

lemma night_totals:
  "sum_list (map sent [s0210, s0250]) = 17" "sum_list (map received [s0210, s0250]) = 16"
  "sum_list (map excess [s0210, s0250]) = 1"
  by (simp_all add: scenario_defs)

lemma night_group_aggregate:
  "aggregate strptime_padded now [s0210, s0250] =
     Inr \<lparr>earliest_start = Some (at_time 2 15), group_status = ''closed'',
          latest_close = Some (at_time 3 0), duration_seconds = 2700, duration = 2700000000,
          duration_str = ''0:45:00'', first_created = ''02:10'', last_created = ''02:50'',
          total_sent = 17, total_received = 16, total_excess = 1, group_count = 2\<rparr>"
  unfolding aggregate_def night_earliest night_status_close night_first night_last night_totals
  by (simp add: night_duration night_duration_str night_window)









lemma scenario_sorted: "sort_key created_key (rev scenario) = scenario"
  by (simp add: scenario_defs grouping_defs)

text \<open>
  C5. The scenario of the specification: shipments created at 02:10 and 02:50 (closed,
  unload started 02:15, closed 03:00) and at 09:00, 09:40 and 11:00, listed newest first
  and sorted by the program. The grouping builds the night group and the two day runs
  [09:00, 09:40] and [11:00] (09:40 to 11:00 is 80 minutes), three groups; the final order
  is [11:00], [09:00, 09:40], night group; and the night group aggregates to status closed
  with a duration of 2700 seconds.
\<close>

theorem scenario_three_groups:
  "sort_key created_key (rev scenario) = scenario
   \<and> build_groups scenario = [[s0210, s0250], [s0900, s0940], [s1100]]
   \<and> group_shipments scenario = [[s1100], [s0900, s0940], [s0210, s0250]]
   \<and> length (group_shipments scenario) = 3
   \<and> aggregate strptime_padded now [s0210, s0250] =
       Inr \<lparr>earliest_start = Some (at_time 2 15), group_status = ''closed'',
            latest_close = Some (at_time 3 0), duration_seconds = 2700, duration = 2700000000,
            duration_str = ''0:45:00'', first_created = ''02:10'', last_created = ''02:50'',
            total_sent = 17, total_received = 16, total_excess = 1, group_count = 2\<rparr>"
proof (intro conjI)
  show "sort_key created_key (rev scenario) = scenario" by (rule scenario_sorted)
  show "build_groups scenario = [[s0210, s0250], [s0900, s0940], [s1100]]"
    by (rule scenario_build_groups)
  show "group_shipments scenario = [[s1100], [s0900, s0940], [s0210, s0250]]"
    by (rule scenario_group_shipments)
  show "length (group_shipments scenario) = 3"
    by (simp add: scenario_group_shipments)
  show "aggregate strptime_padded now [s0210, s0250] =
       Inr \<lparr>earliest_start = Some (at_time 2 15), group_status = ''closed'',
            latest_close = Some (at_time 3 0), duration_seconds = 2700, duration = 2700000000,
            duration_str = ''0:45:00'', first_created = ''02:10'', last_created = ''02:50'',
            total_sent = 17, total_received = 16, total_excess = 1, group_count = 2\<rparr>"
    by (rule night_group_aggregate)
qed




end
